theory Spec2Isabelle
  imports Complex_Main "HOL-Library.AList" "HOL-Library.Sublist"
begin

section \<open>MovieVerse API: data model\<close>

text \<open>
  The handlers of \<^verbatim>\<open>main.py\<close> are embedded as functions over an explicit document
  store. Everything a handler reads from its environment (the clock, the object id the
  driver gives to an inserted document) is an argument; every \<^verbatim>\<open>raise\<close> is a value
  \<open>Inl e\<close>; every handler returns its result together with the store it leaves behind.
\<close>

subsection \<open>Errors\<close>

text \<open>
  \<^verbatim>\<open>HTTPException(status_code, detail)\<close> is raised by the handlers themselves. The other
  constructors are the Python exceptions that the code and its libraries raise; one that
  escapes a handler is answered by FastAPI with status 500. \<open>jwt_error\<close> lists the
  exceptions of the token library.
\<close>

datatype jwt_error =
    DecodeError
  | InvalidAlgorithmError
  | InvalidSignatureError
  | ExpiredSignatureError

datatype error =
    HTTPException nat string
  | TypeError
  | KeyError string
  | ValidationError
  | NotConfigured
  | UnknownHashError
  | ValueError
  | PyJWTError jwt_error

subsection \<open>Token payloads\<close>

text \<open>
  A decoded token payload is a Python \<^verbatim>\<open>dict\<close> from claim names to JSON values; the
  values that occur are strings and integers. The dict is an association list, read with
  \<open>map_of\<close> and written with \<open>AList.update\<close>.
\<close>

datatype jval = JStr string | JInt int

type_synonym claims = "(string \<times> jval) list"

subsection \<open>Schemas (\<^verbatim>\<open>schemas.py\<close>) and request payloads\<close>

record User =
  u_name :: string
  u_email :: string
  u_password_hash :: string
  u_role :: string
  u_is_active :: bool

record Review =
  r_movie_id :: int
  r_user_id :: string
  r_rating :: int
  r_comment :: "string option"
  r_created_at :: "int option"

record Theatre =
  t_name :: string
  t_city :: string
  t_address :: "string option"

record Show =
  s_theatre_id :: string
  s_movie_id :: int
  s_show_time :: int
  s_price :: real
  s_seats_total :: int

record Booking =
  b_user_id :: string
  b_show_id :: string
  b_seats :: "string list"
  b_amount :: real
  b_payment_status :: string
  b_payment_provider :: "string option"

record AuthPayload =
  ap_email :: string
  ap_password :: string
  ap_name :: "string option"

record TheatrePayload =
  tp_name :: string
  tp_city :: string
  tp_address :: "string option"

record ShowPayload =
  sp_theatre_id :: string
  sp_movie_id :: int
  sp_show_time :: int
  sp_price :: real
  sp_seats_total :: int

record BookingPayload =
  bp_show_id :: string
  bp_seats :: "string list"
  bp_amount :: real

subsection \<open>The document store\<close>

text \<open>
  A collection is the list of its documents in insertion order, each with its
  \<^verbatim>\<open>_id\<close>. The database maps collection names to collections; \<^verbatim>\<open>db\<close> itself is
  \<^verbatim>\<open>None\<close> when the database is not configured.
\<close>

datatype document =
    UserDoc User
  | ReviewDoc Review
  | TheatreDoc Theatre
  | ShowDoc Show
  | BookingDoc Booking

type_synonym collection = "(string \<times> document) list"

type_synonym store = "string \<Rightarrow> collection"

type_synonym database = "store option"

definition empty_store :: store where
  "empty_store = (\<lambda>_. [])"

text \<open>\<^verbatim>\<open>collection.find_one(filter)\<close>: the first document the filter matches.\<close>

definition find_one :: "collection \<Rightarrow> (document \<Rightarrow> bool) \<Rightarrow> (string \<times> document) option" where
  "find_one coll flt = find (\<lambda>(i, d). flt d) coll"

text \<open>
  Modelled from the spec: \<^verbatim>\<open>create_document\<close> of \<^verbatim>\<open>database.py\<close>, which is not among the
  sources. The spec describes the store as a generic collaborator exposing \<^verbatim>\<open>insert\<close>
  keyed by collection name, and as unavailable (\<^verbatim>\<open>NotConfigured\<close>) when it was not
  set up. The inserted document gets the object id \<open>oid\<close> that the driver generates, and
  that id is returned.
\<close>

definition create_document ::
  "database \<Rightarrow> string \<Rightarrow> document \<Rightarrow> string \<Rightarrow> (error + string) \<times> database" where
  "create_document db collection_name doc oid =
     (case db of
        None \<Rightarrow> (Inl NotConfigured, db)
      | Some st \<Rightarrow>
          (Inr oid, Some (st(collection_name := st collection_name @ [(oid, doc)]))))"

section \<open>Python strings\<close>

text \<open>
  A Python string is a list of characters. The characters are the code points 0 to 255:
  that is what an HTTP header value holds, and the token alphabet lies within it.
\<close>

text \<open>\<^verbatim>\<open>str.isspace\<close> on one character.\<close>

definition py_isspace :: "char \<Rightarrow> bool" where
  "py_isspace c = ((of_char c :: nat) \<in> {9, 10, 11, 12, 13, 28, 29, 30, 31, 32, 133, 160})"

text \<open>
  \<^verbatim>\<open>s.split()\<close> without a separator: leading whitespace is skipped, the run of characters up
  to the next whitespace is a word, and the rest is split in the same way.
\<close>

function py_split_ws :: "string \<Rightarrow> string list" where
  "py_split_ws s =
     (if dropWhile py_isspace s = [] then []
      else takeWhile (\<lambda>c. \<not> py_isspace c) (dropWhile py_isspace s)
             # py_split_ws (dropWhile (\<lambda>c. \<not> py_isspace c) (dropWhile py_isspace s)))"
  by pat_completeness auto
termination
proof (relation "measure length")
  show "wf (measure length)" by simp
next
  fix s :: string
  assume ne: "dropWhile py_isspace s \<noteq> []"
  then have "\<not> py_isspace (hd (dropWhile py_isspace s))"
    by (rule hd_dropWhile)
  with ne have "length (dropWhile (\<lambda>c. \<not> py_isspace c) (dropWhile py_isspace s))
      < length (dropWhile py_isspace s)"
    by (cases "dropWhile py_isspace s") (auto simp: le_imp_less_Suc length_dropWhile_le)
  also have "\<dots> \<le> length s" by (rule length_dropWhile_le)
  finally show "(dropWhile (\<lambda>c. \<not> py_isspace c) (dropWhile py_isspace s), s) \<in> measure length"
    by simp
qed

declare py_split_ws.simps [simp del]

text \<open>
  \<^verbatim>\<open>s.split(sep)\<close> for a separator of one character: the result is never empty, and an
  empty string gives one empty part.
\<close>

fun py_split :: "char \<Rightarrow> string \<Rightarrow> string list" where
  "py_split sep [] = [[]]"
| "py_split sep (c # cs) =
     (if c = sep then [] # py_split sep cs
      else (case py_split sep cs of
              w # ws \<Rightarrow> (c # w) # ws
            | [] \<Rightarrow> [[c]]))"

text \<open>\<^verbatim>\<open>sep.join(parts)\<close> for a separator of one character.\<close>

fun py_join :: "char \<Rightarrow> string list \<Rightarrow> string" where
  "py_join sep [] = []"
| "py_join sep [x] = x"
| "py_join sep (x # y # zs) = x @ sep # py_join sep (y # zs)"

text \<open>
  \<^verbatim>\<open>str.lower\<close>: the letters A to Z and the upper-case letters of Latin-1 (192 to 222
  without the multiplication sign 215) move up by 32, which sets the bit of weight 32.
\<close>

definition py_isupper :: "char \<Rightarrow> bool" where
  "py_isupper c =
     (let n = (of_char c :: nat) in
      (65 \<le> n \<and> n \<le> 90) \<or> (192 \<le> n \<and> n \<le> 222 \<and> n \<noteq> 215))"

definition py_lower_char :: "char \<Rightarrow> char" where
  "py_lower_char c =
     (if py_isupper c
      then Char (digit0 c) (digit1 c) (digit2 c) (digit3 c) (digit4 c) True (digit6 c) (digit7 c)
      else c)"

definition py_lower :: "string \<Rightarrow> string" where
  "py_lower s = map py_lower_char s"

section \<open>The token library\<close>

text \<open>
  Modelled from the spec: \<^verbatim>\<open>jwt.encode\<close> and \<^verbatim>\<open>jwt.decode\<close> belong to the PyJWT library,
  which is not among the sources. The spec describes a compact signed token that encodes
  the claims and whose verification fails when the signature does not match, when the
  payload is malformed, or when the expiry has passed. The model keeps the shape of a
  compact token, three segments joined by dots, the last one the signature over the first
  two. The segment encoding stands in for base64url of JSON: it is injective and uses
  neither dots nor whitespace. The keyed hash that signs is an argument \<open>mac\<close>, so
  nothing proved depends on which function it is.
\<close>

subsection \<open>Segments\<close>

text \<open>A character is written as its eight binary digits, lowest first.\<close>

definition bit_char :: "bool \<Rightarrow> char" where
  "bit_char b = (if b then CHR ''1'' else CHR ''0'')"

definition char_bit :: "char \<Rightarrow> bool option" where
  "char_bit c = (if c = CHR ''1'' then Some True else if c = CHR ''0'' then Some False else None)"

definition char_bits :: "char \<Rightarrow> bool list" where
  "char_bits c = [digit0 c, digit1 c, digit2 c, digit3 c, digit4 c, digit5 c, digit6 c, digit7 c]"

definition enc_char :: "char \<Rightarrow> string" where
  "enc_char c = map bit_char (char_bits c)"

definition seg_encode :: "string \<Rightarrow> string" where
  "seg_encode s = concat (map enc_char s)"

fun bits_chars :: "bool list \<Rightarrow> string option" where
  "bits_chars [] = Some []"
| "bits_chars (b0 # b1 # b2 # b3 # b4 # b5 # b6 # b7 # bs) =
     map_option ((#) (Char b0 b1 b2 b3 b4 b5 b6 b7)) (bits_chars bs)"
| "bits_chars _ = None"

definition seg_decode :: "string \<Rightarrow> string option" where
  "seg_decode s = (case those (map char_bit s) of None \<Rightarrow> None | Some bs \<Rightarrow> bits_chars bs)"

text \<open>A natural number is written in binary, lowest digit first; zero has no digit.\<close>

fun bits_of_nat :: "nat \<Rightarrow> bool list" where
  "bits_of_nat n = (if n = 0 then [] else odd n # bits_of_nat (n div 2))"

declare bits_of_nat.simps [simp del]

fun nat_of_bits :: "bool list \<Rightarrow> nat" where
  "nat_of_bits [] = 0"
| "nat_of_bits (b # bs) = of_bool b + 2 * nat_of_bits bs"

subsection \<open>Payloads\<close>

text \<open>
  A value starts with a tag: \<open>s\<close> for a string, the sign for an integer. An entry is
  the claim name, a colon and the value; the entries of a payload are joined by commas.
\<close>

fun enc_val :: "jval \<Rightarrow> string" where
  "enc_val (JStr s) = CHR ''s'' # seg_encode s"
| "enc_val (JInt i) =
     (if i < 0 then CHR ''-'' else CHR ''+'') # map bit_char (bits_of_nat (nat \<bar>i\<bar>))"

fun dec_val :: "string \<Rightarrow> jval option" where
  "dec_val [] = None"
| "dec_val (t # rest) =
     (if t = CHR ''s'' then map_option JStr (seg_decode rest)
      else if t = CHR ''+''
        then map_option (\<lambda>bs. JInt (int (nat_of_bits bs))) (those (map char_bit rest))
      else if t = CHR ''-''
        then map_option (\<lambda>bs. JInt (- int (nat_of_bits bs))) (those (map char_bit rest))
      else None)"

definition enc_entry :: "string \<times> jval \<Rightarrow> string" where
  "enc_entry e = seg_encode (fst e) @ CHR '':'' # enc_val (snd e)"

definition dec_entry :: "string \<Rightarrow> (string \<times> jval) option" where
  "dec_entry s =
     (case py_split CHR '':'' s of
        [k, v] \<Rightarrow>
          (case seg_decode k of
             None \<Rightarrow> None
           | Some k' \<Rightarrow> (case dec_val v of None \<Rightarrow> None | Some v' \<Rightarrow> Some (k', v')))
      | _ \<Rightarrow> None)"

definition enc_payload :: "claims \<Rightarrow> string" where
  "enc_payload p = py_join CHR '','' (map enc_entry p)"

text \<open>
  Reading the entries into a dict: a name that occurs again overwrites the value of its
  first occurrence, as in Python.
\<close>

definition dict_of :: "(string \<times> jval) list \<Rightarrow> claims" where
  "dict_of es = foldl (\<lambda>d e. AList.update (fst e) (snd e) d) [] es"

definition dec_payload :: "string \<Rightarrow> claims option" where
  "dec_payload s =
     (if s = [] then Some []
      else map_option dict_of (those (map dec_entry (py_split CHR '','' s))))"

subsection \<open>Encoding and decoding\<close>

definition jwt_encode ::
  "(string \<Rightarrow> string \<Rightarrow> string) \<Rightarrow> claims \<Rightarrow> string \<Rightarrow> string \<Rightarrow> string" where
  "jwt_encode mac payload key algorithm =
     (let signing_input = seg_encode algorithm @ CHR ''.'' # enc_payload payload
      in signing_input @ CHR ''.'' # seg_encode (mac key signing_input))"

text \<open>
  The expiry check of the library: a token without \<^verbatim>\<open>exp\<close> passes, an \<^verbatim>\<open>exp\<close> that is
  not an integer is a decoding error, and the token has expired when \<^verbatim>\<open>exp <= now\<close>.
  Times are whole seconds since the epoch.
\<close>

definition validate_exp :: "claims \<Rightarrow> int \<Rightarrow> jwt_error + claims" where
  "validate_exp payload now =
     (case map_of payload ''exp'' of
        None \<Rightarrow> Inr payload
      | Some (JStr s) \<Rightarrow> Inl DecodeError
      | Some (JInt expires_at) \<Rightarrow>
          if expires_at \<le> now then Inl ExpiredSignatureError else Inr payload)"

definition jwt_decode ::
  "(string \<Rightarrow> string \<Rightarrow> string) \<Rightarrow> string \<Rightarrow> string \<Rightarrow> string list \<Rightarrow> int
     \<Rightarrow> jwt_error + claims" where
  "jwt_decode mac token key algorithms now =
     (case py_split CHR ''.'' token of
        [h, p, s] \<Rightarrow>
          (case seg_decode h of
             None \<Rightarrow> Inl DecodeError
           | Some alg \<Rightarrow>
               (case dec_payload p of
                  None \<Rightarrow> Inl DecodeError
                | Some payload \<Rightarrow>
                    (case seg_decode s of
                       None \<Rightarrow> Inl DecodeError
                     | Some sig \<Rightarrow>
                         if alg \<notin> set algorithms then Inl InvalidAlgorithmError
                         else if sig \<noteq> mac key (h @ CHR ''.'' # p)
                           then Inl InvalidSignatureError
                         else validate_exp payload now)))
      | _ \<Rightarrow> Inl DecodeError)"

text \<open>The payload a token carries, read without checking anything.\<close>

definition token_payload :: "string \<Rightarrow> claims option" where
  "token_payload token =
     (case py_split CHR ''.'' token of [h, p, s] \<Rightarrow> dec_payload p | _ \<Rightarrow> None)"

section \<open>Configuration\<close>

text \<open>
  What the process is configured with: \<^verbatim>\<open>JWT_SECRET\<close> from the environment, the keyed hash
  behind the algorithm \<^verbatim>\<open>HS256\<close>, and the bcrypt handler of the password context. The
  handler's functions return \<open>Inl\<close> where the library raises.
\<close>

record env =
  JWT_SECRET :: string
  hs256 :: "string \<Rightarrow> string \<Rightarrow> string"
  bcrypt_hash :: "string \<Rightarrow> string \<Rightarrow> error + string"
  bcrypt_verify :: "string \<Rightarrow> string \<Rightarrow> error + bool"

definition JWT_ALGO :: string where
  "JWT_ALGO = ''HS256''"

definition ACCESS_TOKEN_EXPIRE_MINUTES :: int where
  "ACCESS_TOKEN_EXPIRE_MINUTES = 60 * 24"

section \<open>Utils\<close>

text \<open>
  \<^verbatim>\<open>create_access_token\<close>. \<open>now\<close> is the clock in seconds, \<open>expires_delta\<close> a
  duration in seconds. \<^verbatim>\<open>expires_delta or timedelta(...)\<close> takes the default also for a
  duration of zero, which is falsy.
\<close>

definition create_access_token :: "env \<Rightarrow> int \<Rightarrow> claims \<Rightarrow> int option \<Rightarrow> string" where
  "create_access_token env now data expires_delta =
     (let to_encode = data;
          expire = now + (case expires_delta of
                            None \<Rightarrow> 60 * ACCESS_TOKEN_EXPIRE_MINUTES
                          | Some d \<Rightarrow> if d = 0 then 60 * ACCESS_TOKEN_EXPIRE_MINUTES else d);
          to_encode = AList.update ''exp'' (JInt expire) to_encode
      in jwt_encode (hs256 env) to_encode (JWT_SECRET env) JWT_ALGO)"

text \<open>
  \<^verbatim>\<open>pwd_context = CryptContext(schemes=["bcrypt"], deprecated="auto")\<close> belongs to the
  passlib library, which is not among the sources. Its \<^verbatim>\<open>verify\<close> first identifies the
  scheme of the digest: bcrypt claims a digest that starts with one of its identifiers,
  and a digest that no scheme of the context claims raises \<^verbatim>\<open>UnknownHashError\<close>. What
  bcrypt then computes is the handler of the configuration. \<open>salt\<close> is the random salt
  of one call of \<^verbatim>\<open>hash\<close>.
\<close>

definition bcrypt_idents :: "string list" where
  "bcrypt_idents = [''$2$'', ''$2a$'', ''$2x$'', ''$2y$'', ''$2b$'']"

definition bcrypt_identify :: "string \<Rightarrow> bool" where
  "bcrypt_identify hash = list_ex (\<lambda>ident. prefix ident hash) bcrypt_idents"

definition pwd_context_verify :: "env \<Rightarrow> string \<Rightarrow> string \<Rightarrow> error + bool" where
  "pwd_context_verify env secret hash =
     (if bcrypt_identify hash then bcrypt_verify env secret hash else Inl UnknownHashError)"

definition pwd_context_hash :: "env \<Rightarrow> string \<Rightarrow> string \<Rightarrow> error + string" where
  "pwd_context_hash env salt secret = bcrypt_hash env salt secret"

definition verify_password :: "env \<Rightarrow> string \<Rightarrow> string \<Rightarrow> error + bool" where
  "verify_password env plain hashed = pwd_context_verify env plain hashed"

definition get_password_hash :: "env \<Rightarrow> string \<Rightarrow> string \<Rightarrow> error + string" where
  "get_password_hash env salt password = pwd_context_hash env salt password"

text \<open>
  The body of the \<^verbatim>\<open>try\<close> block of \<^verbatim>\<open>get_current_user\<close>: unpacking the split header
  into two names raises \<^verbatim>\<open>ValueError\<close> unless there are exactly two parts, and so does a
  scheme other than \<^verbatim>\<open>bearer\<close> in any letter case.
\<close>

definition authorization_payload :: "env \<Rightarrow> int \<Rightarrow> string \<Rightarrow> error + claims" where
  "authorization_payload env now authorization =
     (case py_split_ws authorization of
        [scheme, token] \<Rightarrow>
          if py_lower scheme \<noteq> ''bearer'' then Inl ValueError
          else (case jwt_decode (hs256 env) token (JWT_SECRET env) [JWT_ALGO] now of
                  Inl e \<Rightarrow> Inl (PyJWTError e)
                | Inr payload \<Rightarrow> Inr payload)
      | _ \<Rightarrow> Inl ValueError)"

text \<open>
  \<^verbatim>\<open>get_current_user\<close>. \<^verbatim>\<open>not authorization\<close> holds for a missing header and for an
  empty one; \<^verbatim>\<open>except Exception\<close> turns every exception of the body into the same
  \<^verbatim>\<open>HTTPException\<close>.
\<close>

definition get_current_user :: "env \<Rightarrow> int \<Rightarrow> string option \<Rightarrow> error + claims" where
  "get_current_user env now authorization =
     (case authorization of
        None \<Rightarrow> Inl (HTTPException 401 ''Missing Authorization header'')
      | Some a \<Rightarrow>
          if a = [] then Inl (HTTPException 401 ''Missing Authorization header'')
          else (case authorization_payload env now a of
                  Inl e \<Rightarrow> Inl (HTTPException 401 ''Invalid or expired token'')
                | Inr payload \<Rightarrow> Inr payload))"

section \<open>Auth\<close>

record TokenResponse =
  access_token :: string
  token_type :: string

text \<open>The filter \<^verbatim>\<open>{"email": email}\<close>.\<close>

definition email_query :: "string \<Rightarrow> document \<Rightarrow> bool" where
  "email_query email d = (case d of UserDoc u \<Rightarrow> u_email u = email | _ \<Rightarrow> False)"

text \<open>
  \<^verbatim>\<open>payload.name or payload.email.split("@")[0]\<close>: a missing name and an empty name both
  give the first part of the split email.
\<close>

definition default_name :: "AuthPayload \<Rightarrow> string" where
  "default_name payload =
     (case ap_name payload of
        None \<Rightarrow> hd (py_split CHR ''@'' (ap_email payload))
      | Some n \<Rightarrow> if n = [] then hd (py_split CHR ''@'' (ap_email payload)) else n)"

definition register ::
  "env \<Rightarrow> int \<Rightarrow> string \<Rightarrow> string \<Rightarrow> database \<Rightarrow> AuthPayload
     \<Rightarrow> (error + TokenResponse) \<times> database" where
  "register env now salt oid db payload =
     (case db of
        None \<Rightarrow> (Inl (HTTPException 500 ''Database not configured''), db)
      | Some st \<Rightarrow>
          (case find_one (st ''user'') (email_query (ap_email payload)) of
             Some existing \<Rightarrow> (Inl (HTTPException 400 ''Email already registered''), db)
           | None \<Rightarrow>
               (case get_password_hash env salt (ap_password payload) of
                  Inl e \<Rightarrow> (Inl e, db)
                | Inr h \<Rightarrow>
                    (case create_document db ''user''
                            (UserDoc \<lparr>u_name = default_name payload, u_email = ap_email payload,
                                      u_password_hash = h, u_role = ''user'',
                                      u_is_active = True\<rparr>) oid of
                       (Inl e, db') \<Rightarrow> (Inl e, db')
                     | (Inr user_id, db') \<Rightarrow>
                         (Inr \<lparr>access_token =
                                 create_access_token env now
                                   [(''sub'', JStr user_id), (''email'', JStr (ap_email payload)),
                                    (''role'', JStr ''user'')] None,
                               token_type = ''bearer''\<rparr>, db')))))"

text \<open>
  Reading a stored document as \<^verbatim>\<open>login\<close> does: \<^verbatim>\<open>doc.get("password_hash", "")\<close> and
  \<^verbatim>\<open>doc.get("role", "user")\<close> have defaults for a document without the field, and
  \<^verbatim>\<open>doc["email"]\<close> raises \<^verbatim>\<open>KeyError\<close> for it.
\<close>

definition doc_password_hash :: "document \<Rightarrow> string" where
  "doc_password_hash d = (case d of UserDoc u \<Rightarrow> u_password_hash u | _ \<Rightarrow> [])"

definition doc_role :: "document \<Rightarrow> string" where
  "doc_role d = (case d of UserDoc u \<Rightarrow> u_role u | _ \<Rightarrow> ''user'')"

definition doc_email :: "document \<Rightarrow> error + string" where
  "doc_email d = (case d of UserDoc u \<Rightarrow> Inr (u_email u) | _ \<Rightarrow> Inl (KeyError ''email''))"

definition login ::
  "env \<Rightarrow> int \<Rightarrow> database \<Rightarrow> AuthPayload \<Rightarrow> (error + TokenResponse) \<times> database" where
  "login env now db payload =
     (case db of
        None \<Rightarrow> (Inl (HTTPException 500 ''Database not configured''), db)
      | Some st \<Rightarrow>
          (case find_one (st ''user'') (email_query (ap_email payload)) of
             None \<Rightarrow> (Inl (HTTPException 400 ''Invalid credentials''), db)
           | Some (i, doc) \<Rightarrow>
               (case verify_password env (ap_password payload) (doc_password_hash doc) of
                  Inl e \<Rightarrow> (Inl e, db)
                | Inr ok \<Rightarrow>
                    if \<not> ok then (Inl (HTTPException 400 ''Invalid credentials''), db)
                    else (case doc_email doc of
                            Inl e \<Rightarrow> (Inl e, db)
                          | Inr email \<Rightarrow>
                              (Inr \<lparr>access_token =
                                      create_access_token env now
                                        [(''sub'', JStr i), (''email'', JStr email),
                                         (''role'', JStr (doc_role doc))] None,
                                    token_type = ''bearer''\<rparr>, db)))))"

section \<open>Theatres and shows\<close>

text \<open>
  \<^verbatim>\<open>user.get("role") != "admin"\<close>: the role claim is missing, or is not the string
  \<^verbatim>\<open>"admin"\<close>.
\<close>

definition is_admin :: "claims \<Rightarrow> bool" where
  "is_admin user = (map_of user ''role'' = Some (JStr ''admin''))"

definition create_theatre ::
  "database \<Rightarrow> string \<Rightarrow> TheatrePayload \<Rightarrow> claims \<Rightarrow> (error + string) \<times> database" where
  "create_theatre db oid payload user =
     (if \<not> is_admin user then (Inl (HTTPException 403 ''Admin only''), db)
      else create_document db ''theatre''
             (TheatreDoc \<lparr>t_name = tp_name payload, t_city = tp_city payload,
                          t_address = tp_address payload\<rparr>) oid)"

text \<open>
  \<^verbatim>\<open>Show(**payload.model_dump())\<close> validates the field constraints of the schema:
  \<^verbatim>\<open>price >= 0\<close> and \<^verbatim>\<open>1 <= seats_total <= 300\<close>.
\<close>

definition make_Show :: "ShowPayload \<Rightarrow> error + Show" where
  "make_Show payload =
     (if 0 \<le> sp_price payload \<and> 1 \<le> sp_seats_total payload \<and> sp_seats_total payload \<le> 300
      then Inr \<lparr>s_theatre_id = sp_theatre_id payload, s_movie_id = sp_movie_id payload,
                s_show_time = sp_show_time payload, s_price = sp_price payload,
                s_seats_total = sp_seats_total payload\<rparr>
      else Inl ValidationError)"

definition create_show ::
  "database \<Rightarrow> string \<Rightarrow> ShowPayload \<Rightarrow> claims \<Rightarrow> (error + string) \<times> database" where
  "create_show db oid payload user =
     (if \<not> is_admin user then (Inl (HTTPException 403 ''Admin only''), db)
      else (case make_Show payload of
              Inl e \<Rightarrow> (Inl e, db)
            | Inr show \<Rightarrow> create_document db ''show'' (ShowDoc show) oid))"

section \<open>Bookings\<close>

text \<open>
  The filter \<^verbatim>\<open>{"show_id": show_id, "seats": {"$in": seats}}\<close>: a document matches when
  its \<^verbatim>\<open>show_id\<close> field equals \<open>show_id\<close> and its \<^verbatim>\<open>seats\<close> array has an element
  among \<open>seats\<close>. A document without these fields does not match.
\<close>

definition seats_query :: "string \<Rightarrow> string list \<Rightarrow> document \<Rightarrow> bool" where
  "seats_query show_id seats d =
     (case d of
        BookingDoc b \<Rightarrow> b_show_id b = show_id \<and> list_ex (\<lambda>s. s \<in> set seats) (b_seats b)
      | _ \<Rightarrow> False)"

text \<open>
  \<^verbatim>\<open>create_booking\<close>. With \<^verbatim>\<open>db\<close> being \<^verbatim>\<open>None\<close> the subscript \<^verbatim>\<open>db["booking"]\<close> raises
  \<^verbatim>\<open>TypeError\<close>. \<^verbatim>\<open>user["sub"]\<close> raises \<^verbatim>\<open>KeyError\<close> when the claim is missing, and the
  \<^verbatim>\<open>Booking\<close> constructor rejects a \<^verbatim>\<open>user_id\<close> that is not a string. The result is the
  pair of the new id and the status \<^verbatim>\<open>"pending_payment"\<close>.
\<close>

definition create_booking ::
  "database \<Rightarrow> string \<Rightarrow> BookingPayload \<Rightarrow> claims \<Rightarrow> (error + string \<times> string) \<times> database" where
  "create_booking db oid payload user =
     (case db of
        None \<Rightarrow> (Inl TypeError, db)
      | Some st \<Rightarrow>
          (case find_one (st ''booking'') (seats_query (bp_show_id payload) (bp_seats payload)) of
             Some taken \<Rightarrow> (Inl (HTTPException 400 ''Some seats already booked''), db)
           | None \<Rightarrow>
               (case map_of user ''sub'' of
                  None \<Rightarrow> (Inl (KeyError ''sub''), db)
                | Some (JInt n) \<Rightarrow> (Inl ValidationError, db)
                | Some (JStr uid) \<Rightarrow>
                    (case create_document db ''booking''
                            (BookingDoc \<lparr>b_user_id = uid, b_show_id = bp_show_id payload,
                                         b_seats = bp_seats payload, b_amount = bp_amount payload,
                                         b_payment_status = ''pending'',
                                         b_payment_provider = None\<rparr>) oid of
                       (Inl e, db') \<Rightarrow> (Inl e, db')
                     | (Inr i, db') \<Rightarrow> (Inr (i, ''pending_payment''), db')))))"

subsection \<open>What the booking claims speak about\<close>

text \<open>The spec's name for the conflict error of \<^verbatim>\<open>create_booking\<close>.\<close>

definition SeatConflict :: error where
  "SeatConflict = HTTPException 400 ''Some seats already booked''"

text \<open>The spec's name for the error of the admin gate.\<close>

definition Forbidden :: error where
  "Forbidden = HTTPException 403 ''Admin only''"

text \<open>The booking records of the store, in insertion order.\<close>

definition bookings_of :: "database \<Rightarrow> Booking list" where
  "bookings_of db =
     (case db of
        None \<Rightarrow> []
      | Some st \<Rightarrow>
          concat (map (\<lambda>(i, d). case d of BookingDoc b \<Rightarrow> [b] | _ \<Rightarrow> []) (st ''booking'')))"

text \<open>
  The seats held for a show: the seat lists of its bookings, one after the other, leaving
  out the bookings whose payment status counts as cancelled. The code has no cancelled
  status, so the predicate \<open>cancelled\<close> on payment statuses is left open.
\<close>

definition held_seats :: "(string \<Rightarrow> bool) \<Rightarrow> database \<Rightarrow> string \<Rightarrow> string list" where
  "held_seats cancelled db show_id =
     concat (map b_seats
       (filter (\<lambda>b. b_show_id b = show_id \<and> \<not> cancelled (b_payment_status b)) (bookings_of db)))"

text \<open>An error names a seat when the seat label occurs in its message.\<close>

definition names_seat :: "error \<Rightarrow> string \<Rightarrow> bool" where
  "names_seat e seat =
     (case e of HTTPException status detail \<Rightarrow> sublist seat detail
      | KeyError k \<Rightarrow> sublist seat k
      | _ \<Rightarrow> False)"

subsection \<open>What the auth claims speak about\<close>

text \<open>The spec's names for the errors of \<^verbatim>\<open>get_current_user\<close> and \<^verbatim>\<open>register\<close>.\<close>

definition MissingCredentials :: error where
  "MissingCredentials = HTTPException 401 ''Missing Authorization header''"

definition InvalidToken :: error where
  "InvalidToken = HTTPException 401 ''Invalid or expired token''"

definition DuplicateEmail :: error where
  "DuplicateEmail = HTTPException 400 ''Email already registered''"

subsection \<open>Example data\<close>

text \<open>A store with one pending booking of seats A1 and A2 for show \<open>s1\<close>.\<close>

definition booked_store :: store where
  "booked_store = empty_store(''booking'' :=
     [(''b1'', BookingDoc \<lparr>b_user_id = ''u1'', b_show_id = ''s1'', b_seats = [''A1'', ''A2''],
                           b_amount = 20, b_payment_status = ''pending'',
                           b_payment_provider = None\<rparr>)])"

text \<open>The claims of a token issued to an ordinary user.\<close>

definition user_claims :: claims where
  "user_claims = [(''sub'', JStr ''u1''), (''email'', JStr ''a@b.c''), (''role'', JStr ''user'')]"

text \<open>
  A configuration for the examples. Its keyed hash and its bcrypt handler are toys: the
  theorems hold for every configuration, the examples only need one.
\<close>

definition demo_env :: env where
  "demo_env = \<lparr>JWT_SECRET = ''devsecret'',
               hs256 = (\<lambda>key msg. key @ msg),
               bcrypt_hash = (\<lambda>salt password. Inr (''$2b$'' @ salt @ password)),
               bcrypt_verify = (\<lambda>password hash. Inr (drop 6 hash = password))\<rparr>"

text \<open>The store after alex has registered on an empty store.\<close>

definition alex_registered :: store where
  "alex_registered = empty_store(''user'' :=
     [(''u1'', UserDoc \<lparr>u_name = ''alex'', u_email = ''alex@ex.org'',
                        u_password_hash = ''$2b$abpw'', u_role = ''user'',
                        u_is_active = True\<rparr>)])"

text \<open>A store with a user whose stored digest is empty.\<close>

definition empty_digest_store :: store where
  "empty_digest_store = empty_store(''user'' :=
     [(''u9'', UserDoc \<lparr>u_name = ''kim'', u_email = ''kim@ex.org'',
                        u_password_hash = [], u_role = ''user'',
                        u_is_active = True\<rparr>)])"

section \<open>Verification: bookings\<close>

lemma bookings_of_insert:
  "bookings_of (Some (st(''booking'' := st ''booking'' @ [(oid, BookingDoc b)])))
     = bookings_of (Some st) @ [b]"
  by (simp add: bookings_of_def)

lemma find_one_None_iff:
  "find_one coll flt = None \<longleftrightarrow> (\<forall>(i, d) \<in> set coll. \<not> flt d)"
  by (auto simp: find_one_def find_None_iff)

lemma seats_query_bookings:
  "(\<exists>(i, d) \<in> set (st ''booking''). seats_query sid seats d) \<longleftrightarrow>
   (\<exists>b \<in> set (bookings_of (Some st)). b_show_id b = sid \<and> set (b_seats b) \<inter> set seats \<noteq> {})"
  by (fastforce simp: bookings_of_def seats_query_def list_ex_iff split: document.splits)

text \<open>
  A call either fails and leaves the store as it was, or it found no conflicting booking
  and appended exactly one pending booking.
\<close>

lemma create_booking_cases:
  "create_booking db oid p user = (r, db') \<Longrightarrow>
     (db' = db \<and> (\<exists>e. r = Inl e)) \<or>
     (\<exists>st uid. db = Some st \<and> r = Inr (oid, ''pending_payment'') \<and>
        find_one (st ''booking'') (seats_query (bp_show_id p) (bp_seats p)) = None \<and>
        map_of user ''sub'' = Some (JStr uid) \<and>
        db' = Some (st(''booking'' := st ''booking'' @
           [(oid, BookingDoc \<lparr>b_user_id = uid, b_show_id = bp_show_id p,
                               b_seats = bp_seats p, b_amount = bp_amount p,
                               b_payment_status = ''pending'',
                               b_payment_provider = None\<rparr>)])))"
  by (auto simp: create_booking_def create_document_def split: option.splits jval.splits)

lemma distinct_concat_snoc:
  "distinct (concat (map f (filter P (xs @ [x])))) \<longleftrightarrow>
     (if P x then distinct (concat (map f (filter P xs))) \<and> distinct (f x) \<and>
        (\<forall>y \<in> set (filter P xs). set (f y) \<inter> set (f x) = {})
      else distinct (concat (map f (filter P xs))))"
  by auto

text \<open>
  C1. If no seat is held twice for any show, then after one call of \<open>create_booking\<close>
  with a non-empty list of distinct seats no seat is held twice for any show, whether the
  call succeeded or failed. This holds for every reading of which payment statuses count
  as cancelled.
\<close>

theorem create_booking_keeps_no_double_booking:
  assumes inv: "\<forall>show_id. distinct (held_seats cancelled db show_id)"
    and ne: "bp_seats payload \<noteq> []"
    and dist: "distinct (bp_seats payload)"
  shows "\<forall>show_id. distinct
           (held_seats cancelled (snd (create_booking db oid payload user)) show_id)"
proof
  fix show_id
  obtain r db' where eq: "create_booking db oid payload user = (r, db')"
    by (cases "create_booking db oid payload user")
  from create_booking_cases [OF eq]
  show "distinct (held_seats cancelled (snd (create_booking db oid payload user)) show_id)"
  proof
    assume "db' = db \<and> (\<exists>e. r = Inl e)"
    with inv eq show ?thesis by simp
  next
    assume "\<exists>st uid. db = Some st \<and> r = Inr (oid, ''pending_payment'') \<and>
        find_one (st ''booking'') (seats_query (bp_show_id payload) (bp_seats payload)) = None \<and>
        map_of user ''sub'' = Some (JStr uid) \<and>
        db' = Some (st(''booking'' := st ''booking'' @
           [(oid, BookingDoc \<lparr>b_user_id = uid, b_show_id = bp_show_id payload,
                               b_seats = bp_seats payload, b_amount = bp_amount payload,
                               b_payment_status = ''pending'',
                               b_payment_provider = None\<rparr>)]))"
    then obtain st uid where db: "db = Some st"
      and free: "find_one (st ''booking'')
                   (seats_query (bp_show_id payload) (bp_seats payload)) = None"
      and db': "db' = Some (st(''booking'' := st ''booking'' @
           [(oid, BookingDoc \<lparr>b_user_id = uid, b_show_id = bp_show_id payload,
                               b_seats = bp_seats payload, b_amount = bp_amount payload,
                               b_payment_status = ''pending'',
                               b_payment_provider = None\<rparr>)]))"
      by blast
    from free have nocl: "\<forall>b \<in> set (bookings_of (Some st)).
        b_show_id b = bp_show_id payload \<longrightarrow> set (b_seats b) \<inter> set (bp_seats payload) = {}"
      using seats_query_bookings [of st "bp_show_id payload" "bp_seats payload"]
      by (simp add: find_one_None_iff) blast
    from inv db have old: "distinct (held_seats cancelled (Some st) show_id)" by simp
    have "distinct (held_seats cancelled db' show_id)"
      unfolding db' held_seats_def bookings_of_insert distinct_concat_snoc
      using old nocl dist by (auto simp: held_seats_def)
    with eq show ?thesis by simp
  qed
qed

theorem create_booking_keeps_no_double_booking_witness:
  "(\<forall>show_id. distinct (held_seats (\<lambda>s. s = ''cancelled'') (Some booked_store) show_id)) \<and>
   bp_seats \<lparr>bp_show_id = ''s1'', bp_seats = [''A3''], bp_amount = 10\<rparr> \<noteq> [] \<and>
   distinct (bp_seats \<lparr>bp_show_id = ''s1'', bp_seats = [''A3''], bp_amount = 10\<rparr>) \<and>
   (\<forall>show_id. distinct (held_seats (\<lambda>s. s = ''cancelled'')
      (snd (create_booking (Some booked_store) ''b2''
              \<lparr>bp_show_id = ''s1'', bp_seats = [''A3''], bp_amount = 10\<rparr>
              user_claims)) show_id))"
proof -
  have inv: "\<forall>show_id. distinct (held_seats (\<lambda>s. s = ''cancelled'') (Some booked_store) show_id)"
    by (simp add: held_seats_def bookings_of_def booked_store_def empty_store_def)
  have ne: "bp_seats \<lparr>bp_show_id = ''s1'', bp_seats = [''A3''], bp_amount = 10\<rparr> \<noteq> []"
    by simp
  have dist: "distinct (bp_seats \<lparr>bp_show_id = ''s1'', bp_seats = [''A3''], bp_amount = 10\<rparr>)"
    by simp
  from create_booking_keeps_no_double_booking [OF inv ne dist, of "''b2''" user_claims]
    inv ne dist
  show ?thesis by blast
qed

text \<open>
  C2, as the code has it. \<open>create_booking\<close> fails with the conflict error exactly when a
  booking stored for the requested show, whatever its payment status, shares a seat with
  the request; and whenever it fails, with any error, the store is unchanged. The conflict
  error is the fixed exception of status 400 with the message
  \<^verbatim>\<open>Some seats already booked\<close>.
\<close>

theorem create_booking_conflict_iff:
  "(fst (create_booking db oid payload user) = Inl SeatConflict \<longleftrightarrow>
      (\<exists>b \<in> set (bookings_of db).
          b_show_id b = bp_show_id payload \<and> set (b_seats b) \<inter> set (bp_seats payload) \<noteq> {}))
   \<and> (\<forall>e. fst (create_booking db oid payload user) = Inl e \<longrightarrow>
          snd (create_booking db oid payload user) = db)
   \<and> SeatConflict = HTTPException 400 ''Some seats already booked''"
proof (cases db)
  case None
  then show ?thesis
    by (simp add: create_booking_def bookings_of_def SeatConflict_def)
next
  case (Some st)
  note db = this
  show ?thesis
  proof (cases "find_one (st ''booking'') (seats_query (bp_show_id payload) (bp_seats payload))")
    case None
    with db have "fst (create_booking db oid payload user) \<noteq> Inl SeatConflict"
      by (auto simp: create_booking_def create_document_def SeatConflict_def
               split: option.splits jval.splits)
    moreover from None have "\<not> (\<exists>b \<in> set (bookings_of (Some st)).
          b_show_id b = bp_show_id payload \<and> set (b_seats b) \<inter> set (bp_seats payload) \<noteq> {})"
      unfolding seats_query_bookings [symmetric] find_one_None_iff by blast
    moreover from db have "\<forall>e. fst (create_booking db oid payload user) = Inl e \<longrightarrow>
          snd (create_booking db oid payload user) = db"
      by (auto simp: create_booking_def create_document_def split: option.splits jval.splits)
    ultimately show ?thesis using db by (simp add: SeatConflict_def)
  next
    case (Some taken)
    then have "\<not> (\<forall>(i, d) \<in> set (st ''booking'').
                    \<not> seats_query (bp_show_id payload) (bp_seats payload) d)"
      using find_one_None_iff [of "st ''booking''"
              "seats_query (bp_show_id payload) (bp_seats payload)"] by simp
    then have "\<exists>b \<in> set (bookings_of (Some st)).
          b_show_id b = bp_show_id payload \<and> set (b_seats b) \<inter> set (bp_seats payload) \<noteq> {}"
      unfolding seats_query_bookings [symmetric] by blast
    with Some db show ?thesis
      by (simp add: create_booking_def SeatConflict_def)
  qed
qed

theorem create_booking_conflict_iff_witness:
  "fst (create_booking (Some booked_store) ''b2''
          \<lparr>bp_show_id = ''s1'', bp_seats = [''A2'', ''A3''], bp_amount = 20\<rparr> user_claims)
     = Inl SeatConflict \<and>
   snd (create_booking (Some booked_store) ''b2''
          \<lparr>bp_show_id = ''s1'', bp_seats = [''A2'', ''A3''], bp_amount = 20\<rparr> user_claims)
     = Some booked_store"
proof -
  have "\<exists>b \<in> set (bookings_of (Some booked_store)).
          b_show_id b = ''s1'' \<and> set (b_seats b) \<inter> set [''A2'', ''A3''] \<noteq> {}"
    by (simp add: bookings_of_def booked_store_def empty_store_def)
  with create_booking_conflict_iff [of "Some booked_store" "''b2''"
      "\<lparr>bp_show_id = ''s1'', bp_seats = [''A2'', ''A3''], bp_amount = 20\<rparr>" user_claims]
  show ?thesis by simp
qed

text \<open>
  C2 as stated fails: with seats A1 and A2 booked for show \<open>s1\<close>, a request for A2 and A3
  is refused with the fixed message, in which neither A2 nor A3 occurs.
\<close>

theorem create_booking_conflict_names_no_seat:
  "create_booking (Some booked_store) ''b2''
      \<lparr>bp_show_id = ''s1'', bp_seats = [''A2'', ''A3''], bp_amount = 20\<rparr> user_claims
     = (Inl (HTTPException 400 ''Some seats already booked''), Some booked_store)
   \<and> \<not> names_seat (HTTPException 400 ''Some seats already booked'') ''A2''
   \<and> \<not> names_seat (HTTPException 400 ''Some seats already booked'') ''A3''"
  by (simp add: create_booking_def find_one_def seats_query_def booked_store_def empty_store_def
        names_seat_def user_claims_def sublist_code(3))

text \<open>
  C3 as stated fails: on an empty store a request with an empty seat list succeeds and a
  booking record with no seats is inserted.
\<close>

theorem create_booking_empty_seats_inserts:
  "create_booking (Some empty_store) ''b1''
      \<lparr>bp_show_id = ''s1'', bp_seats = [], bp_amount = 0\<rparr> user_claims
     = (Inr (''b1'', ''pending_payment''),
        Some (empty_store(''booking'' :=
          [(''b1'', BookingDoc \<lparr>b_user_id = ''u1'', b_show_id = ''s1'', b_seats = [],
                                b_amount = 0, b_payment_status = ''pending'',
                                b_payment_provider = None\<rparr>)])))"
  by (simp add: create_booking_def find_one_def seats_query_def empty_store_def
        create_document_def user_claims_def)

text \<open>
  C3, as the code has it. A request whose seat list is empty is not rejected for it: on a
  configured store and with a string \<^verbatim>\<open>sub\<close> claim it succeeds and inserts a pending
  booking with an empty seat list.
\<close>

theorem create_booking_empty_seats:
  assumes "bp_seats payload = []" and "map_of user ''sub'' = Some (JStr uid)"
  shows "create_booking (Some st) oid payload user =
     (Inr (oid, ''pending_payment''),
      Some (st(''booking'' := st ''booking'' @
        [(oid, BookingDoc \<lparr>b_user_id = uid, b_show_id = bp_show_id payload, b_seats = [],
                            b_amount = bp_amount payload, b_payment_status = ''pending'',
                            b_payment_provider = None\<rparr>)])))"
proof -
  have "find_one (st ''booking'') (seats_query (bp_show_id payload) []) = None"
    by (auto simp: find_one_None_iff seats_query_def list_ex_iff split: document.splits)
  with assms show ?thesis
    by (simp add: create_booking_def create_document_def)
qed

theorem create_booking_empty_seats_witness:
  "bp_seats \<lparr>bp_show_id = ''s1'', bp_seats = [], bp_amount = 5\<rparr> = [] \<and>
   map_of [(''sub'', JStr ''u7'')] ''sub'' = Some (JStr ''u7'') \<and>
   create_booking (Some booked_store) ''b9'' \<lparr>bp_show_id = ''s1'', bp_seats = [], bp_amount = 5\<rparr>
       [(''sub'', JStr ''u7'')] =
     (Inr (''b9'', ''pending_payment''),
      Some (booked_store(''booking'' := booked_store ''booking'' @
        [(''b9'', BookingDoc \<lparr>b_user_id = ''u7'', b_show_id = ''s1'', b_seats = [],
                              b_amount = 5, b_payment_status = ''pending'',
                              b_payment_provider = None\<rparr>)])))"
  using create_booking_empty_seats [of "\<lparr>bp_show_id = ''s1'', bp_seats = [], bp_amount = 5\<rparr>"
     "[(''sub'', JStr ''u7'')]" "''u7''" booked_store "''b9''"]
  by simp

section \<open>Verification: the admin gate\<close>

text \<open>
  C7. For a principal whose role claim is not \<^verbatim>\<open>admin\<close>, \<open>create_theatre\<close> and
  \<open>create_show\<close> both fail with the error of status 403 and return the store unchanged.
\<close>

theorem non_admin_forbidden:
  assumes "map_of user ''role'' \<noteq> Some (JStr ''admin'')"
  shows "create_theatre db oid tp user = (Inl Forbidden, db) \<and>
         create_show db oid' sp user = (Inl Forbidden, db) \<and>
         Forbidden = HTTPException 403 ''Admin only''"
  using assms by (simp add: create_theatre_def create_show_def is_admin_def Forbidden_def)

theorem non_admin_forbidden_witness:
  "map_of user_claims ''role'' \<noteq> Some (JStr ''admin'') \<and>
   create_theatre (Some empty_store) ''t1''
      \<lparr>tp_name = ''Odeon'', tp_city = ''Pune'', tp_address = None\<rparr> user_claims
     = (Inl Forbidden, Some empty_store) \<and>
   create_show (Some empty_store) ''s1''
      \<lparr>sp_theatre_id = ''t1'', sp_movie_id = 7, sp_show_time = 0, sp_price = 10,
        sp_seats_total = 80\<rparr> user_claims
     = (Inl Forbidden, Some empty_store)"
proof -
  have h: "map_of user_claims ''role'' \<noteq> Some (JStr ''admin'')"
    by (simp add: user_claims_def)
  from non_admin_forbidden [OF h] h show ?thesis by blast
qed

section \<open>Verification: strings and the token codec\<close>

lemma py_split_no_sep: "sep \<notin> set xs \<Longrightarrow> py_split sep xs = [xs]"
  by (induction xs) auto

lemma py_split_append_sep:
  "sep \<notin> set xs \<Longrightarrow> py_split sep (xs @ sep # ys) = xs # py_split sep ys"
  by (induction xs) auto

lemma py_split_takeWhile:
  "py_split sep s = takeWhile (\<lambda>c. c \<noteq> sep) s #
     (case dropWhile (\<lambda>c. c \<noteq> sep) s of [] \<Rightarrow> [] | c # rest \<Rightarrow> py_split sep rest)"
  by (induction s) (auto split: list.splits)

lemma hd_py_split: "hd (py_split sep s) = takeWhile (\<lambda>c. c \<noteq> sep) s"
  by (subst py_split_takeWhile) simp

lemma py_split_join:
  "xs \<noteq> [] \<Longrightarrow> \<forall>x \<in> set xs. sep \<notin> set x \<Longrightarrow> py_split sep (py_join sep xs) = xs"
proof (induction sep xs rule: py_join.induct)
  case (1 sep)
  then show ?case by simp
next
  case (2 sep x)
  then show ?case by (simp add: py_split_no_sep)
next
  case (3 sep x y zs)
  then show ?case by (simp add: py_split_append_sep)
qed

lemma set_py_join: "set (py_join sep xs) \<subseteq> insert sep (\<Union>x \<in> set xs. set x)"
  by (induction sep xs rule: py_join.induct) auto

lemma py_join_Nil_iff: "\<forall>x \<in> set xs. x \<noteq> [] \<Longrightarrow> py_join sep xs = [] \<longleftrightarrow> xs = []"
  by (induction sep xs rule: py_join.induct) auto

lemma py_split_ws_Nil: "py_split_ws [] = []"
  by (simp add: py_split_ws.simps)

lemma py_split_ws_word:
  assumes "w \<noteq> []" and "\<forall>c \<in> set w. \<not> py_isspace c"
  shows "py_split_ws (w @ rest) =
           (if rest = [] \<or> py_isspace (hd rest) then w # py_split_ws rest
            else py_split_ws (w @ rest))"
proof (cases "rest = [] \<or> py_isspace (hd rest)")
  case False
  then show ?thesis by simp
next
  case True
  from assms obtain a w' where w: "w = a # w'" and a: "\<not> py_isspace a"
    by (cases w) auto
  have d1: "dropWhile py_isspace (w @ rest) = w @ rest"
    using w a by simp
  have t: "takeWhile (\<lambda>c. \<not> py_isspace c) (w @ rest) = w"
    using assms(2) True by (cases rest) (auto simp: takeWhile_tail)
  have d2: "dropWhile (\<lambda>c. \<not> py_isspace c) (w @ rest) = rest"
    using assms(2) True by (cases rest) (auto simp: dropWhile_append)
  have "py_split_ws (w @ rest) = w # py_split_ws rest"
    by (subst py_split_ws.simps) (simp only: d1 t d2, simp add: w)
  with True show ?thesis by simp
qed

lemma py_split_ws_space:
  assumes "py_isspace c"
  shows "py_split_ws (c # s) = py_split_ws s"
proof -
  have d: "dropWhile py_isspace (c # s) = dropWhile py_isspace s"
    using assms by simp
  show ?thesis
    by (rule trans [OF py_split_ws.simps [of "c # s"]], simp only: d)
       (rule py_split_ws.simps [of s, symmetric])
qed

lemma py_split_ws_two:
  assumes "w1 \<noteq> []" "\<forall>c \<in> set w1. \<not> py_isspace c" "w2 \<noteq> []" "\<forall>c \<in> set w2. \<not> py_isspace c"
  shows "py_split_ws (w1 @ CHR '' '' # w2) = [w1, w2]"
proof -
  have sp: "py_isspace CHR '' ''" by (simp add: py_isspace_def)
  have "py_split_ws (w1 @ CHR '' '' # w2) = w1 # py_split_ws (CHR '' '' # w2)"
    using py_split_ws_word [OF assms(1,2), of "CHR '' '' # w2"] sp by simp
  also have "py_split_ws (CHR '' '' # w2) = py_split_ws w2"
    using sp by (rule py_split_ws_space)
  also have "py_split_ws w2 = [w2]"
    using py_split_ws_word [OF assms(3,4), of "[]"] by (simp add: py_split_ws_Nil)
  finally show ?thesis .
qed

lemma those_char_bit: "those (map char_bit (map bit_char bs)) = Some bs"
  by (induction bs) (auto simp: char_bit_def bit_char_def)

lemma those_char_bit_comp: "those (map (char_bit \<circ> bit_char) bs) = Some bs"
  using those_char_bit [of bs] by simp

lemma seg_encode_bits: "seg_encode s = map bit_char (concat (map char_bits s))"
  by (induction s) (simp_all add: seg_encode_def enc_char_def char_bits_def)

lemma bits_chars_concat: "bits_chars (concat (map char_bits s)) = Some s"
proof (induction s)
  case Nil
  then show ?case by simp
next
  case (Cons c s)
  then show ?case by (cases c) (simp add: char_bits_def)
qed

lemma seg_decode_encode: "seg_decode (seg_encode s) = Some s"
  unfolding seg_decode_def seg_encode_bits those_char_bit
  by (simp add: bits_chars_concat)

lemma set_bit_chars: "set (map bit_char bs) \<subseteq> {CHR ''0'', CHR ''1''}"
  by (auto simp: bit_char_def)

lemma set_seg_encode: "set (seg_encode s) \<subseteq> {CHR ''0'', CHR ''1''}"
  unfolding seg_encode_bits by (rule set_bit_chars)

lemma nat_of_bits_of_nat: "nat_of_bits (bits_of_nat n) = n"
proof (induction n rule: bits_of_nat.induct)
  case (1 n)
  show ?case
  proof (cases "n = 0")
    case True
    then show ?thesis by (simp add: bits_of_nat.simps)
  next
    case False
    with 1 have ih: "nat_of_bits (bits_of_nat (n div 2)) = n div 2" by simp
    have "of_bool (odd n) + 2 * (n div 2) = n"
    proof (cases "odd n")
      case True
      then have "Suc (2 * (n div 2)) = n" by presburger
      with True show ?thesis by simp
    next
      case False
      then have "2 * (n div 2) = n" by presburger
      with False show ?thesis by simp
    qed
    with False ih show ?thesis
      by (subst bits_of_nat.simps) simp
  qed
qed

lemma dec_val_enc_val: "dec_val (enc_val v) = Some v"
proof (cases v)
  case (JStr s)
  then show ?thesis by (simp add: seg_decode_encode)
next
  case (JInt i)
  then show ?thesis
    by (simp add: those_char_bit_comp nat_of_bits_of_nat)
qed

lemma set_enc_val:
  "set (enc_val v) \<subseteq> {CHR ''0'', CHR ''1'', CHR ''s'', CHR ''+'', CHR ''-''}"
proof (cases v)
  case (JStr s)
  with set_seg_encode [of s] show ?thesis by auto
next
  case (JInt i)
  then show ?thesis by (auto simp: bit_char_def)
qed

lemma set_enc_entry:
  "set (enc_entry e) \<subseteq> {CHR ''0'', CHR ''1'', CHR ''s'', CHR ''+'', CHR ''-'', CHR '':''}"
  using set_seg_encode [of "fst e"] set_enc_val [of "snd e"]
  by (auto simp: enc_entry_def)

lemma dec_entry_enc_entry: "dec_entry (enc_entry e) = Some e"
proof -
  have a: "CHR '':'' \<notin> set (seg_encode (fst e))"
    using set_seg_encode [of "fst e"] by auto
  have b: "CHR '':'' \<notin> set (enc_val (snd e))"
    using set_enc_val [of "snd e"] by auto
  show ?thesis
    by (simp add: dec_entry_def enc_entry_def py_split_append_sep [OF a] py_split_no_sep [OF b]
          seg_decode_encode dec_val_enc_val)
qed

lemma those_dec_entries: "those (map (dec_entry \<circ> enc_entry) p) = Some p"
  by (induction p) (simp_all add: dec_entry_enc_entry)

lemma enc_entry_not_Nil: "enc_entry e \<noteq> []"
  by (simp add: enc_entry_def)

lemma set_enc_payload:
  "set (enc_payload p) \<subseteq> {CHR ''0'', CHR ''1'', CHR ''s'', CHR ''+'', CHR ''-'', CHR '':'', CHR '',''}"
  using set_py_join [of "CHR '',''" "map enc_entry p"] set_enc_entry
  unfolding enc_payload_def by fastforce

lemma update_fresh: "k \<notin> fst ` set d \<Longrightarrow> AList.update k v d = d @ [(k, v)]"
  by (induction d) auto

lemma foldl_update_distinct:
  "distinct (map fst (d @ es)) \<Longrightarrow>
     foldl (\<lambda>d e. AList.update (fst e) (snd e) d) d es = d @ es"
proof (induction es arbitrary: d)
  case Nil
  then show ?case by simp
next
  case (Cons e es)
  from Cons.prems have fresh: "fst e \<notin> fst ` set d" by auto
  from Cons.prems have "distinct (map fst ((d @ [e]) @ es))" by simp
  from Cons.IH [OF this] fresh show ?case
    by (simp add: update_fresh)
qed

lemma dict_of_distinct: "distinct (map fst p) \<Longrightarrow> dict_of p = p"
  using foldl_update_distinct [of "[]" p] by (simp add: dict_of_def)

lemma dec_payload_enc_payload: "dec_payload (enc_payload p) = Some (dict_of p)"
proof (cases "p = []")
  case True
  then show ?thesis by (simp add: dec_payload_def enc_payload_def dict_of_def)
next
  case False
  have ne: "enc_payload p \<noteq> []"
    using False py_join_Nil_iff [of "map enc_entry p" "CHR '',''"]
    by (auto simp: enc_payload_def enc_entry_not_Nil)
  have "\<forall>x \<in> set (map enc_entry p). CHR '','' \<notin> set x"
    using set_enc_entry by fastforce
  with False have "py_split CHR '','' (enc_payload p) = map enc_entry p"
    unfolding enc_payload_def by (intro py_split_join) auto
  with ne show ?thesis
    by (simp add: dec_payload_def those_dec_entries)
qed

lemma py_split_token:
  "py_split CHR ''.'' (jwt_encode mac payload key alg) =
     [seg_encode alg, enc_payload payload,
      seg_encode (mac key (seg_encode alg @ CHR ''.'' # enc_payload payload))]"
proof -
  have a: "CHR ''.'' \<notin> set (seg_encode alg)"
    using set_seg_encode [of alg] by auto
  have b: "CHR ''.'' \<notin> set (enc_payload payload)"
    using set_enc_payload [of payload] by auto
  have c: "CHR ''.'' \<notin> set (seg_encode (mac key (seg_encode alg @ CHR ''.'' # enc_payload payload)))"
    using set_seg_encode [of "mac key (seg_encode alg @ CHR ''.'' # enc_payload payload)"] by auto
  have "jwt_encode mac payload key alg =
      seg_encode alg @ CHR ''.'' # (enc_payload payload @ CHR ''.'' #
        seg_encode (mac key (seg_encode alg @ CHR ''.'' # enc_payload payload)))"
    by (simp add: jwt_encode_def Let_def)
  then show ?thesis
    by (simp only: py_split_append_sep [OF a] py_split_append_sep [OF b] py_split_no_sep [OF c])
qed




lemma jwt_decode_encode:
  "jwt_decode mac (jwt_encode mac payload key alg) key algorithms now =
     (if alg \<in> set algorithms then validate_exp (dict_of payload) now
      else Inl InvalidAlgorithmError)"
  unfolding jwt_decode_def py_split_token
  by (simp add: seg_decode_encode dec_payload_enc_payload)



lemma token_payload_encode:
  "token_payload (jwt_encode mac payload key alg) = Some (dict_of payload)"
  unfolding token_payload_def py_split_token
  by (simp add: dec_payload_enc_payload)



lemma seg_encode_no_space: "c \<in> set (seg_encode s) \<Longrightarrow> \<not> py_isspace c"
  using set_seg_encode [of s] by (auto simp: py_isspace_def)

lemma enc_payload_no_space:
  assumes "c \<in> set (enc_payload p)"
  shows "\<not> py_isspace c"
proof -
  from assms set_enc_payload [of p]
  have "c \<in> {CHR ''0'', CHR ''1'', CHR ''s'', CHR ''+'', CHR ''-'', CHR '':'', CHR '',''}"
    by (rule subsetD [rotated])
  then show ?thesis
    by (elim insertE emptyE) (simp_all add: py_isspace_def)
qed

lemma jwt_encode_no_space:
  assumes "c \<in> set (jwt_encode mac payload key alg)"
  shows "\<not> py_isspace c"
proof -
  from assms have "c \<in> set (seg_encode alg) \<or> c = CHR ''.'' \<or> c \<in> set (enc_payload payload)
      \<or> c \<in> set (seg_encode (mac key (seg_encode alg @ CHR ''.'' # enc_payload payload)))"
    by (auto simp: jwt_encode_def Let_def)
  then show ?thesis
  proof (elim disjE)
    assume "c = CHR ''.''"
    then show ?thesis by (simp add: py_isspace_def)
  qed (rule seg_encode_no_space, assumption, rule enc_payload_no_space, assumption,
       rule seg_encode_no_space, assumption)
qed

lemma jwt_encode_not_Nil: "jwt_encode mac payload key alg \<noteq> []"
  by (simp add: jwt_encode_def Let_def)

section \<open>Verification: tokens\<close>

lemma py_lower_Bearer: "py_lower ''Bearer'' = ''bearer''"
  by (simp add: py_lower_def py_lower_char_def py_isupper_def)

lemma Bearer_no_space: "\<forall>c \<in> set ''Bearer''. \<not> py_isspace c"
  by (simp add: py_isspace_def)

lemma py_split_ws_Bearer:
  "py_split_ws (''Bearer '' @ jwt_encode mac payload key alg) =
     [''Bearer'', jwt_encode mac payload key alg]"
proof -
  have "py_split_ws (''Bearer'' @ CHR '' '' # jwt_encode mac payload key alg) =
     [''Bearer'', jwt_encode mac payload key alg]"
    by (rule py_split_ws_two) (simp_all add: Bearer_no_space jwt_encode_not_Nil jwt_encode_no_space)
  then show ?thesis by simp
qed

lemma get_current_user_Bearer:
  "get_current_user env now (Some (''Bearer '' @ jwt_encode (hs256 env) payload (JWT_SECRET env) JWT_ALGO)) =
     (case validate_exp (dict_of payload) now of
        Inl e \<Rightarrow> Inl (HTTPException 401 ''Invalid or expired token'')
      | Inr p \<Rightarrow> Inr p)"
proof -
  have "authorization_payload env now
          (''Bearer '' @ jwt_encode (hs256 env) payload (JWT_SECRET env) JWT_ALGO) =
        (case validate_exp (dict_of payload) now of
           Inl e \<Rightarrow> Inl (PyJWTError e) | Inr p \<Rightarrow> Inr p)"
    unfolding authorization_payload_def py_split_ws_Bearer
    by (simp add: py_lower_Bearer jwt_decode_encode)
  then show ?thesis
    by (simp add: get_current_user_def split: sum.splits)
qed

text \<open>
  C4. For every subject id, email and role, at any time before the expiry of the token
  that \<open>create_access_token\<close> issues for them, \<open>get_current_user\<close> accepts the
  header \<^verbatim>\<open>Bearer <token>\<close> and returns the three claims as they were issued, together
  with the expiry.
\<close>

theorem issue_verify_roundtrip:
  assumes "now' < now + 60 * ACCESS_TOKEN_EXPIRE_MINUTES"
  shows "get_current_user env now'
           (Some (''Bearer '' @ create_access_token env now
                    [(''sub'', JStr subject_id), (''email'', JStr email), (''role'', JStr role)]
                    None))
         = Inr [(''sub'', JStr subject_id), (''email'', JStr email), (''role'', JStr role),
                (''exp'', JInt (now + 60 * ACCESS_TOKEN_EXPIRE_MINUTES))]"
proof -
  let ?p = "[(''sub'', JStr subject_id), (''email'', JStr email), (''role'', JStr role),
             (''exp'', JInt (now + 60 * ACCESS_TOKEN_EXPIRE_MINUTES))]"
  have tok: "create_access_token env now
               [(''sub'', JStr subject_id), (''email'', JStr email), (''role'', JStr role)] None
             = jwt_encode (hs256 env) ?p (JWT_SECRET env) JWT_ALGO"
    by (simp add: create_access_token_def Let_def)
  have d: "dict_of ?p = ?p"
    by (rule dict_of_distinct) simp
  have v: "validate_exp ?p now' = Inr ?p"
    using assms by (simp add: validate_exp_def)
  show ?thesis
    unfolding tok get_current_user_Bearer d v by simp
qed

text \<open>One hour after a token was issued at time 0 it is accepted.\<close>

theorem issue_verify_roundtrip_witness:
  "get_current_user demo_env 3600
     (Some (''Bearer '' @ create_access_token demo_env 0
              [(''sub'', JStr ''u1''), (''email'', JStr ''a@b.c''), (''role'', JStr ''user'')]
              None))
   = Inr [(''sub'', JStr ''u1''), (''email'', JStr ''a@b.c''), (''role'', JStr ''user''),
          (''exp'', JInt 86400)]"
proof -
  have h: "(3600::int) < 0 + 60 * ACCESS_TOKEN_EXPIRE_MINUTES"
    by (simp add: ACCESS_TOKEN_EXPIRE_MINUTES_def)
  from issue_verify_roundtrip [OF h, of demo_env "''u1''" "''a@b.c''" "''user''"]
  show ?thesis by (simp add: ACCESS_TOKEN_EXPIRE_MINUTES_def)
qed

lemma jwt_decode_expired:
  assumes "token_payload token = Some payload"
    and "map_of payload ''exp'' = Some (JInt expires_at)"
    and "expires_at \<le> now"
  shows "\<exists>e. jwt_decode mac token key algorithms now = Inl e"
proof -
  from assms(1) obtain h p s where sp: "py_split CHR ''.'' token = [h, p, s]"
    and dp: "dec_payload p = Some payload"
    by (auto simp: token_payload_def split: list.splits)
  from assms(2,3) have "validate_exp payload now = Inl ExpiredSignatureError"
    by (simp add: validate_exp_def)
  with sp dp show ?thesis
    by (simp add: jwt_decode_def split: option.splits)
qed

text \<open>
  C5. A token whose payload carries an expiry that is not after the current time is
  rejected with the invalid-token error. Nothing is assumed about its signature, so this
  holds for a token that is signed correctly.
\<close>

theorem expired_token_rejected:
  assumes "token_payload token = Some payload"
    and "map_of payload ''exp'' = Some (JInt expires_at)"
    and "expires_at \<le> now"
    and "py_split_ws authorization = [scheme, token]"
  shows "get_current_user env now (Some authorization) = Inl InvalidToken"
proof -
  from assms(4) have ne: "authorization \<noteq> []"
    by (auto simp: py_split_ws_Nil)
  from jwt_decode_expired [OF assms(1-3)]
  obtain e where "jwt_decode (hs256 env) token (JWT_SECRET env) [JWT_ALGO] now = Inl e"
    by blast
  with assms(4) have "\<exists>e. authorization_payload env now authorization = Inl e"
    by (simp add: authorization_payload_def)
  with ne show ?thesis
    by (auto simp: get_current_user_def InvalidToken_def)
qed

text \<open>A correctly signed token issued at time 0 is rejected at its expiry, 86400.\<close>

theorem expired_token_rejected_witness:
  "get_current_user demo_env 86400
     (Some (''Bearer '' @ create_access_token demo_env 0
              [(''sub'', JStr ''u1''), (''email'', JStr ''a@b.c''), (''role'', JStr ''user'')]
              None))
   = Inl InvalidToken"
proof -
  let ?p = "[(''sub'', JStr ''u1''), (''email'', JStr ''a@b.c''), (''role'', JStr ''user''),
             (''exp'', JInt 86400)]"
  let ?t = "jwt_encode (hs256 demo_env) ?p (JWT_SECRET demo_env) JWT_ALGO"
  have tok: "create_access_token demo_env 0
               [(''sub'', JStr ''u1''), (''email'', JStr ''a@b.c''), (''role'', JStr ''user'')] None
             = ?t"
    by (simp add: create_access_token_def Let_def ACCESS_TOKEN_EXPIRE_MINUTES_def)
  have d: "dict_of ?p = ?p"
    by (rule dict_of_distinct) simp
  have h1: "token_payload ?t = Some ?p"
    by (simp only: token_payload_encode d)
  have h2: "map_of ?p ''exp'' = Some (JInt 86400)" by simp
  have h3: "(86400::int) \<le> 86400" by simp
  have h4: "py_split_ws (''Bearer '' @ ?t) = [''Bearer'', ?t]"
    by (rule py_split_ws_Bearer)
  from expired_token_rejected [OF h1 h2 h3 h4, of demo_env]
  show ?thesis by (simp only: tok)
qed

section \<open>Verification: the authorization header\<close>

text \<open>
  C6, as the code has it. A missing header and an empty one fail with the missing-header
  error. A header that is not made of exactly two parts, a header whose scheme is not
  \<^verbatim>\<open>bearer\<close> up to letter case, and a bearer header whose token does not decode all
  fail with one and the same error, the invalid-token error, which differs from the
  missing-header error.
\<close>

theorem get_current_user_failures:
  "get_current_user env now None = Inl MissingCredentials \<and>
   get_current_user env now (Some []) = Inl MissingCredentials \<and>
   MissingCredentials \<noteq> InvalidToken \<and>
   (a1 \<noteq> [] \<and> length (py_split_ws a1) \<noteq> 2 \<longrightarrow>
      get_current_user env now (Some a1) = Inl InvalidToken) \<and>
   (py_split_ws a2 = [scheme2, token2] \<and> py_lower scheme2 \<noteq> ''bearer'' \<longrightarrow>
      get_current_user env now (Some a2) = Inl InvalidToken) \<and>
   (py_split_ws a3 = [scheme3, token3] \<and> py_lower scheme3 = ''bearer'' \<and>
    jwt_decode (hs256 env) token3 (JWT_SECRET env) [JWT_ALGO] now = Inl e \<longrightarrow>
      get_current_user env now (Some a3) = Inl InvalidToken)"
proof (intro conjI impI)
  show "get_current_user env now None = Inl MissingCredentials"
    by (simp add: get_current_user_def MissingCredentials_def)
  show "get_current_user env now (Some []) = Inl MissingCredentials"
    by (simp add: get_current_user_def MissingCredentials_def)
  show "MissingCredentials \<noteq> InvalidToken"
    by (simp add: MissingCredentials_def InvalidToken_def)
next
  assume h: "a1 \<noteq> [] \<and> length (py_split_ws a1) \<noteq> 2"
  then have "authorization_payload env now a1 = Inl ValueError"
    by (auto simp: authorization_payload_def split: list.splits)
  with h show "get_current_user env now (Some a1) = Inl InvalidToken"
    by (simp add: get_current_user_def InvalidToken_def)
next
  assume h: "py_split_ws a2 = [scheme2, token2] \<and> py_lower scheme2 \<noteq> ''bearer''"
  then have ne: "a2 \<noteq> []" by (auto simp: py_split_ws_Nil)
  from h have "authorization_payload env now a2 = Inl ValueError"
    by (simp add: authorization_payload_def)
  with ne show "get_current_user env now (Some a2) = Inl InvalidToken"
    by (simp add: get_current_user_def InvalidToken_def)
next
  assume h: "py_split_ws a3 = [scheme3, token3] \<and> py_lower scheme3 = ''bearer'' \<and>
    jwt_decode (hs256 env) token3 (JWT_SECRET env) [JWT_ALGO] now = Inl e"
  then have ne: "a3 \<noteq> []" by (auto simp: py_split_ws_Nil)
  from h have "authorization_payload env now a3 = Inl (PyJWTError e)"
    by (simp add: authorization_payload_def)
  with ne show "get_current_user env now (Some a3) = Inl InvalidToken"
    by (simp add: get_current_user_def InvalidToken_def)
qed

text \<open>Three headers: no token, a wrong scheme, a token that does not decode.\<close>

lemma split_Bearer: "py_split_ws ''Bearer'' = [''Bearer'']"
  by (simp add: py_split_ws.simps py_isspace_def)

lemma split_Basic_abc: "py_split_ws ''Basic abc'' = [''Basic'', ''abc'']"
  by (simp add: py_split_ws.simps py_isspace_def)

lemma split_Bearer_abc: "py_split_ws ''Bearer abc'' = [''Bearer'', ''abc'']"
  by (simp add: py_split_ws.simps py_isspace_def)

lemma lower_Basic: "py_lower ''Basic'' = ''basic''"
  by (simp add: py_lower_def py_lower_char_def py_isupper_def)

lemma decode_abc: "jwt_decode mac ''abc'' key algorithms now = Inl DecodeError"
  by (simp add: jwt_decode_def)

theorem get_current_user_failures_witness:
  "get_current_user demo_env 0 (Some ''Bearer'') = Inl InvalidToken \<and>
   get_current_user demo_env 0 (Some ''Basic abc'') = Inl InvalidToken \<and>
   get_current_user demo_env 0 (Some ''Bearer abc'') = Inl InvalidToken"
  using get_current_user_failures [of demo_env 0 "''Bearer''" "''Basic abc''" "''Basic''" "''abc''"
      "''Bearer abc''" "''Bearer''" "''abc''" DecodeError]
  by (simp add: split_Bearer split_Basic_abc split_Bearer_abc lower_Basic py_lower_Bearer decode_abc)

text \<open>
  C6 as stated fails: a header with the scheme \<^verbatim>\<open>Basic\<close> and a bearer header without a
  token get exactly the error that a bearer header with a bad token gets.
\<close>

theorem malformed_header_same_error_as_bad_token:
  "get_current_user demo_env 0 (Some ''Basic abc'')
     = Inl (HTTPException 401 ''Invalid or expired token'') \<and>
   get_current_user demo_env 0 (Some ''Bearer'')
     = Inl (HTTPException 401 ''Invalid or expired token'') \<and>
   get_current_user demo_env 0 (Some ''Bearer abc'')
     = Inl (HTTPException 401 ''Invalid or expired token'')"
  by (simp add: get_current_user_def authorization_payload_def split_Bearer split_Basic_abc
        split_Bearer_abc lower_Basic py_lower_Bearer decode_abc)

section \<open>Verification: passwords\<close>

text \<open>
  C8 does not hold of the code. \<open>verify_password\<close> hands the digest to the password
  context and catches nothing, so on the empty digest it raises \<^verbatim>\<open>UnknownHashError\<close>
  instead of returning false. \<open>login\<close> reads the digest with the default
  \<^verbatim>\<open>""\<close> and tests \<^verbatim>\<open>not verify_password(...)\<close> to answer 400 for it; for a user whose
  stored digest is empty the call ends in the exception instead.
\<close>

theorem verify_password_empty_digest_raises:
  "verify_password demo_env ''secret'' [] = Inl UnknownHashError \<and>
   login demo_env 0 (Some empty_digest_store)
     \<lparr>ap_email = ''kim@ex.org'', ap_password = ''secret'', ap_name = None\<rparr>
   = (Inl UnknownHashError, Some empty_digest_store)"
  by (simp add: verify_password_def pwd_context_verify_def bcrypt_identify_def bcrypt_idents_def
        login_def find_one_def email_query_def doc_password_hash_def empty_digest_store_def
        empty_store_def)

section \<open>Verification: registration\<close>

lemma find_one_Some_iff:
  "(\<exists>x. find_one coll flt = Some x) \<longleftrightarrow> (\<exists>(i, d) \<in> set coll. flt d)"
  using find_one_None_iff [of coll flt] by auto

lemma register_success:
  assumes "register env now salt oid db payload = (Inr tok, db')"
  shows "\<exists>st h. db = Some st \<and>
           find_one (st ''user'') (email_query (ap_email payload)) = None \<and>
           get_password_hash env salt (ap_password payload) = Inr h \<and>
           db' = Some (st(''user'' := st ''user'' @
                   [(oid, UserDoc \<lparr>u_name = default_name payload, u_email = ap_email payload,
                                    u_password_hash = h, u_role = ''user'',
                                    u_is_active = True\<rparr>)]))"
  using assms
  by (auto simp: register_def create_document_def split: option.splits sum.splits)

text \<open>
  C9. After a registration with an email has succeeded, a registration with the same
  email on the store it left, or on any later store that still holds its user records,
  fails with the duplicate-email error and returns the store unchanged, whatever the
  passwords and names of the two requests are.
\<close>

theorem register_twice_duplicate_email:
  assumes first: "register env now salt oid db
                    \<lparr>ap_email = e, ap_password = p1, ap_name = n1\<rparr> = (Inr tok, Some st')"
    and later: "set (st' ''user'') \<subseteq> set (st'' ''user'')"
  shows "register env2 now2 salt2 oid2 (Some st'')
           \<lparr>ap_email = e, ap_password = p2, ap_name = n2\<rparr> = (Inl DuplicateEmail, Some st'')"
proof -
  from register_success [OF first] obtain st h where
    st': "st' = st(''user'' := st ''user'' @
                   [(oid, UserDoc \<lparr>u_name = default_name \<lparr>ap_email = e, ap_password = p1, ap_name = n1\<rparr>,
                                    u_email = e, u_password_hash = h, u_role = ''user'',
                                    u_is_active = True\<rparr>)])"
    by auto
  then have "(oid, UserDoc \<lparr>u_name = default_name \<lparr>ap_email = e, ap_password = p1, ap_name = n1\<rparr>,
                            u_email = e, u_password_hash = h, u_role = ''user'',
                            u_is_active = True\<rparr>) \<in> set (st' ''user'')"
    by simp
  with later have "\<exists>(i, d) \<in> set (st'' ''user''). email_query e d"
    by (force simp: email_query_def)
  then obtain x where "find_one (st'' ''user'') (email_query e) = Some x"
    unfolding find_one_Some_iff [symmetric] by blast
  then show ?thesis
    by (simp add: register_def DuplicateEmail_def)
qed

text \<open>A first registration on the empty store.\<close>

lemma register_alex:
  "register demo_env 0 ''ab'' ''u1'' (Some empty_store)
     \<lparr>ap_email = ''alex@ex.org'', ap_password = ''pw'', ap_name = None\<rparr> =
   (Inr \<lparr>access_token = create_access_token demo_env 0
            [(''sub'', JStr ''u1''), (''email'', JStr ''alex@ex.org''), (''role'', JStr ''user'')]
            None,
         token_type = ''bearer''\<rparr>, Some alex_registered)"
  by (simp add: register_def find_one_def empty_store_def get_password_hash_def
        pwd_context_hash_def demo_env_def create_document_def default_name_def
        alex_registered_def)

theorem register_twice_duplicate_email_witness:
  "register demo_env 7 ''cd'' ''u2'' (Some alex_registered)
     \<lparr>ap_email = ''alex@ex.org'', ap_password = ''other'', ap_name = Some ''Al''\<rparr>
   = (Inl DuplicateEmail, Some alex_registered)"
  using register_twice_duplicate_email [OF register_alex, of alex_registered]
  by simp

text \<open>
  C10. A registration without a name, with an email that no stored user has and a
  password that the hashing accepts, succeeds and appends to the user collection exactly
  one record, whose name is the part of the email before the first \<^verbatim>\<open>@\<close>.
\<close>

theorem register_default_name:
  assumes "ap_name payload = None"
    and "find_one (st ''user'') (email_query (ap_email payload)) = None"
    and "get_password_hash env salt (ap_password payload) = Inr h"
  shows "register env now salt oid (Some st) payload =
           (Inr \<lparr>access_token =
                   create_access_token env now
                     [(''sub'', JStr oid), (''email'', JStr (ap_email payload)),
                      (''role'', JStr ''user'')] None,
                 token_type = ''bearer''\<rparr>,
            Some (st(''user'' := st ''user'' @
                   [(oid, UserDoc \<lparr>u_name = takeWhile (\<lambda>c. c \<noteq> CHR ''@'') (ap_email payload),
                                    u_email = ap_email payload,
                                    u_password_hash = h, u_role = ''user'',
                                    u_is_active = True\<rparr>)])))"
proof -
  from assms(1) have "default_name payload = takeWhile (\<lambda>c. c \<noteq> CHR ''@'') (ap_email payload)"
    by (simp add: default_name_def hd_py_split)
  with assms(2,3) show ?thesis
    by (simp add: register_def create_document_def)
qed

theorem register_default_name_witness:
  "ap_name \<lparr>ap_email = ''kim@ex.org'', ap_password = ''pw'', ap_name = None\<rparr> = None \<and>
   find_one (alex_registered ''user'') (email_query ''kim@ex.org'') = None \<and>
   get_password_hash demo_env ''cd'' ''pw'' = Inr ''$2b$cdpw'' \<and>
   register demo_env 5 ''cd'' ''u2'' (Some alex_registered)
     \<lparr>ap_email = ''kim@ex.org'', ap_password = ''pw'', ap_name = None\<rparr> =
     (Inr \<lparr>access_token =
             create_access_token demo_env 5
               [(''sub'', JStr ''u2''), (''email'', JStr ''kim@ex.org''),
                (''role'', JStr ''user'')] None,
           token_type = ''bearer''\<rparr>,
      Some (alex_registered(''user'' := alex_registered ''user'' @
             [(''u2'', UserDoc \<lparr>u_name = ''kim'', u_email = ''kim@ex.org'',
                                u_password_hash = ''$2b$cdpw'', u_role = ''user'',
                                u_is_active = True\<rparr>)])))"
proof -
  have h1: "ap_name \<lparr>ap_email = ''kim@ex.org'', ap_password = ''pw'', ap_name = None\<rparr> = None"
    by simp
  have h2: "find_one (alex_registered ''user'')
              (email_query (ap_email \<lparr>ap_email = ''kim@ex.org'', ap_password = ''pw'',
                                       ap_name = None\<rparr>)) = None"
    by (simp add: find_one_def email_query_def alex_registered_def empty_store_def)
  have h3: "get_password_hash demo_env ''cd''
              (ap_password \<lparr>ap_email = ''kim@ex.org'', ap_password = ''pw'', ap_name = None\<rparr>)
            = Inr ''$2b$cdpw''"
    by (simp add: get_password_hash_def pwd_context_hash_def demo_env_def)
  from register_default_name
         [where payload = "\<lparr>ap_email = ''kim@ex.org'', ap_password = ''pw'', ap_name = None\<rparr>"
            and st = alex_registered and env = demo_env and salt = "''cd''"
            and h = "''$2b$cdpw''" and now = 5 and oid = "''u2''", OF h1 h2 h3]
       h2 h3
  show ?thesis by simp
qed

end
